theory Spec2Isabelle
  imports Main "HOL-Library.Word"
begin

section \<open>JavaScript values as lib/bson.js sees them\<close>

text \<open>
  The module lib/bson.js renders MongoDB documents as shell literals and parses shell text
  back. It works on arbitrary JavaScript values, so the embedding starts with a datatype of
  values. Only what the module observes is kept: the internal class of a value (what
  \<^verbatim>\<open>Object.prototype.toString.call\<close> reports), its own properties, and its truthiness.
  Finite numbers are restricted to the integers; no function of the module computes with a
  fractional number. Objects have data properties only: accessors and proxies, which run
  code when a property is read, are outside the model, and functions are opaque.
\<close>

datatype js_error = TypeError | SyntaxError | BSONError | OtherError string

type_synonym 'a result = "js_error + 'a"

datatype jsnumber = Finite int | NaN | PosInfinity | NegInfinity

record regexp =
  source :: string
  global :: bool
  ignoreCase :: bool
  multiline :: bool
  dotAll :: bool
  unicode :: bool
  sticky :: bool

datatype jsval =
    JUndefined
  | JNull
  | JBool bool
  | JNum jsnumber
  | JBigInt int
  | JStr string
  | JSymbol string
  | JFunction string
  | JArray "jsval list"
  | JDate "int option"
  | JRegExp regexp
  | JObject "(string \<times> jsval) list"
  | JBson string "(string \<times> jsval) list"
  | JOther string "(string \<times> jsval) list"
  | JWrapped jsval

text \<open>
  \<^item> \<open>JObject ps\<close> is a plain object with the own properties \<open>ps\<close>, in insertion order.
  \<^item> \<open>JBson tag ps\<close> is an instance of a class of the BSON library: its prototype answers
    \<open>_bsontype\<close> with \<open>tag\<close>, and \<open>ps\<close> are its own fields.
  \<^item> \<open>JOther cls ps\<close> is any other object; \<open>cls\<close> is the class name that
    \<^verbatim>\<open>Object.prototype.toString\<close> reports for it (Map, Set, Error, Arguments, or whatever its
    \<^verbatim>\<open>Symbol.toStringTag\<close> says).
  \<^item> \<open>JWrapped p\<close> is the wrapper object that \<^verbatim>\<open>Object(p)\<close> makes of a primitive \<open>p\<close>.
  \<^item> \<open>JDate None\<close> is the invalid date.
\<close>

fun truthy :: "jsval \<Rightarrow> bool" where
  "truthy JUndefined = False"
| "truthy JNull = False"
| "truthy (JBool b) = b"
| "truthy (JNum (Finite n)) = (n \<noteq> 0)"
| "truthy (JNum NaN) = False"
| "truthy (JNum PosInfinity) = True"
| "truthy (JNum NegInfinity) = True"
| "truthy (JBigInt n) = (n \<noteq> 0)"
| "truthy (JStr s) = (s \<noteq> [])"
| "truthy (JSymbol d) = True"
| "truthy (JFunction f) = True"
| "truthy (JArray xs) = True"
| "truthy (JDate d) = True"
| "truthy (JRegExp r) = True"
| "truthy (JObject ps) = True"
| "truthy (JBson tag ps) = True"
| "truthy (JOther cls ps) = True"
| "truthy (JWrapped p) = True"

text \<open>The class name inside \<^verbatim>\<open>[object ...]\<close>, for every value.\<close>

fun class_of :: "jsval \<Rightarrow> string" where
  "class_of JUndefined = ''Undefined''"
| "class_of JNull = ''Null''"
| "class_of (JBool b) = ''Boolean''"
| "class_of (JNum n) = ''Number''"
| "class_of (JBigInt n) = ''BigInt''"
| "class_of (JStr s) = ''String''"
| "class_of (JSymbol d) = ''Symbol''"
| "class_of (JFunction f) = ''Function''"
| "class_of (JArray xs) = ''Array''"
| "class_of (JDate d) = ''Date''"
| "class_of (JRegExp r) = ''RegExp''"
| "class_of (JObject ps) = ''Object''"
| "class_of (JBson tag ps) = ''Object''"
| "class_of (JOther cls ps) = cls"
| "class_of (JWrapped p) = class_of p"

definition Object_prototype_toString :: "jsval \<Rightarrow> string" where
  "Object_prototype_toString v = ''[object '' @ class_of v @ '']''"

text \<open>
  Reading the marker, \<^verbatim>\<open>value._bsontype\<close>. On \<^verbatim>\<open>undefined\<close> and \<^verbatim>\<open>null\<close> the read throws a
  TypeError. An object answers its own property of that name, or \<^verbatim>\<open>undefined\<close> when it has
  none; an instance of the BSON library answers the tag of its class. No built-in prototype
  defines the property, so a primitive answers \<^verbatim>\<open>undefined\<close>.
\<close>

definition own_property :: "(string \<times> jsval) list \<Rightarrow> string \<Rightarrow> jsval" where
  "own_property ps p = (case map_of ps p of None \<Rightarrow> JUndefined | Some x \<Rightarrow> x)"

fun get_bsontype :: "jsval \<Rightarrow> jsval result" where
  "get_bsontype JUndefined = Inl TypeError"
| "get_bsontype JNull = Inl TypeError"
| "get_bsontype (JObject ps) = Inr (own_property ps ''_bsontype'')"
| "get_bsontype (JBson tag ps) =
     Inr (case map_of ps ''_bsontype'' of None \<Rightarrow> JStr tag | Some x \<Rightarrow> x)"
| "get_bsontype (JOther cls ps) = Inr (own_property ps ''_bsontype'')"
| "get_bsontype v = Inr JUndefined"

section \<open>The type classifier\<close>

text \<open>
  \<^verbatim>\<open>const TYPE_FOR_TO_STRING = new Map([['[object Array]', 'Array'], ...])\<close>
\<close>

definition TYPE_FOR_TO_STRING :: "(string \<times> string) list" where
  "TYPE_FOR_TO_STRING =
     [(''[object Array]'', ''Array''),
      (''[object Object]'', ''Object''),
      (''[object String]'', ''String''),
      (''[object Date]'', ''Date''),
      (''[object Number]'', ''Number''),
      (''[object Function]'', ''Function''),
      (''[object RegExp]'', ''RegExp''),
      (''[object Boolean]'', ''Boolean''),
      (''[object Null]'', ''Null''),
      (''[object Undefined]'', ''Undefined'')]"

text \<open>
  \<^verbatim>\<open>function detectType(value) {
    return TYPE_FOR_TO_STRING.get(Object.prototype.toString.call(value)); }\<close>
  \<open>None\<close> is the \<^verbatim>\<open>undefined\<close> that \<^verbatim>\<open>Map.get\<close> answers for a missing key.
\<close>

definition detectType :: "jsval \<Rightarrow> string option" where
  "detectType v = map_of TYPE_FOR_TO_STRING (Object_prototype_toString v)"

definition coarse_tag :: "string option \<Rightarrow> jsval" where
  "coarse_tag t = (case t of None \<Rightarrow> JUndefined | Some s \<Rightarrow> JStr s)"

record descriptor =
  type :: jsval
  isBSON :: bool

text \<open>
  \<^verbatim>\<open>function getTypeDescriptorForValue(value) {
    const t = detectType(value);
    const _bsontype = t === 'Object' && value._bsontype;
    return { type: _bsontype || t, isBSON: !!_bsontype };
  }\<close>
  The property is read only when the left operand of \<^verbatim>\<open>&&\<close> is true; otherwise
  \<open>_bsontype\<close> is \<^verbatim>\<open>false\<close>.
\<close>

definition bsontype_of :: "jsval \<Rightarrow> jsval result" where
  "bsontype_of v =
     (if detectType v = Some ''Object'' then get_bsontype v else Inr (JBool False))"

definition getTypeDescriptorForValue :: "jsval \<Rightarrow> descriptor result" where
  "getTypeDescriptorForValue v =
     (case bsontype_of v of
        Inl e \<Rightarrow> Inl e
      | Inr b \<Rightarrow>
          Inr \<lparr> type = (if truthy b then b else coarse_tag (detectType v)),
                isBSON = truthy b \<rparr>)"

section \<open>The formatter table and the stringifier\<close>

text \<open>
  \<^verbatim>\<open>const BSON_TO_JS_STRING = { Code: ..., ObjectID: ..., ..., RegExp: ... }\<close> is an object
  literal, so a lookup \<^verbatim>\<open>BSON_TO_JS_STRING[k]\<close> answers the own property \<open>k\<close> when the literal
  has one, and otherwise follows the prototype chain to \<^verbatim>\<open>Object.prototype\<close>. The own keys
  are the fifteen of the literal; the inherited ones are the standard members of
  \<^verbatim>\<open>Object.prototype\<close>.
\<close>

definition BSON_TO_JS_STRING_keys :: "string list" where
  "BSON_TO_JS_STRING_keys =
     [''Code'', ''ObjectID'', ''ObjectId'', ''Binary'', ''DBRef'', ''Timestamp'', ''Long'',
      ''Decimal128'', ''Double'', ''Int32'', ''MaxKey'', ''MinKey'', ''Date'', ''ISODate'',
      ''RegExp'']"

definition Object_prototype_keys :: "string list" where
  "Object_prototype_keys =
     [''constructor'', ''__defineGetter__'', ''__defineSetter__'', ''hasOwnProperty'',
      ''__lookupGetter__'', ''__lookupSetter__'', ''isPrototypeOf'', ''propertyIsEnumerable'',
      ''toString'', ''valueOf'', ''__proto__'', ''toLocaleString'']"

datatype property_key = StringKey string | SymbolKey string

datatype slot = Entry string | Inherited string | Missing

text \<open>
  The key of a lookup is the descriptor's \<open>type\<close>: a string, \<^verbatim>\<open>undefined\<close> (the name
  \<open>undefined\<close>), or a truthy marker of another kind, which ECMAScript's ToPropertyKey
  converts. That conversion of a non-string is taken as the parameter \<open>conv\<close>.
\<close>

definition ToPropertyKey :: "(jsval \<Rightarrow> property_key result) \<Rightarrow> jsval \<Rightarrow> property_key result" where
  "ToPropertyKey conv k =
     (case k of JStr s \<Rightarrow> Inr (StringKey s) | JUndefined \<Rightarrow> Inr (StringKey ''undefined'') | _ \<Rightarrow> conv k)"

definition BSON_TO_JS_STRING_get :: "property_key \<Rightarrow> slot" where
  "BSON_TO_JS_STRING_get k =
     (case k of
        SymbolKey d \<Rightarrow> Missing
      | StringKey s \<Rightarrow>
          if s \<in> set BSON_TO_JS_STRING_keys then Entry s
          else if s \<in> set Object_prototype_keys then Inherited s
          else Missing)"

text \<open>
  \<^verbatim>\<open>!toJs\<close>: a missing property is \<^verbatim>\<open>undefined\<close>; every entry and every member of
  \<^verbatim>\<open>Object.prototype\<close> is a function or, for \<open>__proto__\<close>, the prototype object itself.
\<close>

fun slot_truthy :: "slot \<Rightarrow> bool" where
  "slot_truthy Missing = False"
| "slot_truthy (Entry k) = True"
| "slot_truthy (Inherited k) = True"

fun is_object :: "jsval \<Rightarrow> bool" where
  "is_object (JFunction f) = True"
| "is_object (JArray xs) = True"
| "is_object (JDate d) = True"
| "is_object (JRegExp r) = True"
| "is_object (JObject ps) = True"
| "is_object (JBson tag ps) = True"
| "is_object (JOther cls ps) = True"
| "is_object (JWrapped p) = True"
| "is_object v = False"

text \<open>
  \<^verbatim>\<open>toJs(value)\<close> for an inherited member, called as a plain function in module (strict)
  code, so with \<^verbatim>\<open>this\<close> undefined:
  \<^item> \<open>__proto__\<close> reads as the prototype object, which is not callable;
  \<^item> \<open>toString\<close> answers \<^verbatim>\<open>[object Undefined]\<close>;
  \<^item> \<open>constructor\<close> is \<^verbatim>\<open>Object\<close>, which returns an object argument unchanged (and wraps a
    primitive);
  \<^item> \<open>isPrototypeOf\<close> answers \<^verbatim>\<open>false\<close> for a primitive argument before it looks at
    \<^verbatim>\<open>this\<close>;
  \<^item> every other member converts \<^verbatim>\<open>this\<close> to an object first and throws.
\<close>

definition call_inherited :: "string \<Rightarrow> jsval \<Rightarrow> jsval result" where
  "call_inherited k v =
     (if k = ''__proto__'' then Inl TypeError
      else if k = ''toString'' then Inr (JStr ''[object Undefined]'')
      else if k = ''constructor'' then
        Inr (if is_object v then v
             else if v = JUndefined \<or> v = JNull then JObject []
             else JWrapped v)
      else if k = ''isPrototypeOf'' \<and> \<not> is_object v then Inr (JBool False)
      else Inl TypeError)"

datatype indent = Spaces nat | IndentText string

type_synonym replacer = "jsval \<Rightarrow> indent \<Rightarrow> (jsval \<Rightarrow> jsval result) \<Rightarrow> jsval result"

text \<open>
  What the module calls but does not define, as parameters:
  \<^item> \<open>parser\<close>: the default export of mongodb-query-parser;
  \<^item> \<open>new_ObjectId\<close>: the constructor of the BSON library's ObjectId;
  \<^item> \<open>EJSON_serialize\<close> and \<open>EJSON_stringify\<close>: the two functions of the BSON library's EJSON;
  \<^item> \<open>toJavascriptString\<close>: \<^verbatim>\<open>stringify\<close> of javascript-stringify, which walks a value and
    calls the replacer at every node. What the replacer returns for the root is returned
    unchanged, so the result is a value and not always a string;
  \<^item> \<open>property_key_of\<close>: ToPropertyKey on a value that is neither a string nor undefined;
  \<^item> \<open>call_function f this args\<close>: the call of the function value \<open>f\<close>; functions are
    opaque.

  One more parameter stands for code of the module itself: \<open>entry_body k v\<close> is what the
  body of the table's entry \<open>k\<close> returns for the value \<open>v\<close>. The bodies call methods of
  the BSON library on whatever value carries the tag; the callback only needs their
  results. Two bodies are modelled further down, on the library's own types.
\<close>

record collaborators =
  parser :: "string \<Rightarrow> jsval result"
  new_ObjectId :: "string \<Rightarrow> jsval result"
  EJSON_serialize :: "jsval \<Rightarrow> jsval result"
  EJSON_stringify :: "jsval \<Rightarrow> jsval result"
  toJavascriptString :: "jsval \<Rightarrow> replacer \<Rightarrow> indent \<Rightarrow> jsval result"
  entry_body :: "string \<Rightarrow> jsval \<Rightarrow> jsval result"
  property_key_of :: "jsval \<Rightarrow> property_key result"
  call_function :: "string \<Rightarrow> jsval \<Rightarrow> jsval list \<Rightarrow> jsval result"

definition call_slot :: "collaborators \<Rightarrow> slot \<Rightarrow> jsval \<Rightarrow> jsval result" where
  "call_slot E toJs v =
     (case toJs of
        Entry k \<Rightarrow> entry_body E k v
      | Inherited k \<Rightarrow> call_inherited k v
      | Missing \<Rightarrow> Inl TypeError)"

text \<open>
  The callback of \<^verbatim>\<open>toJSString\<close>:
  \<^verbatim>\<open>function (value, indent, stringify) {
    const t = getTypeDescriptorForValue(value);
    const toJs = BSON_TO_JS_STRING[t.type];
    if (!toJs) { return stringify(value); }
    return toJs(value);
  }\<close>
\<close>

definition toJSString_replacer :: "collaborators \<Rightarrow> replacer" where
  "toJSString_replacer E v ind stringify =
     (case getTypeDescriptorForValue v of
        Inl e \<Rightarrow> Inl e
      | Inr t \<Rightarrow>
          (case ToPropertyKey (property_key_of E) (type t) of
             Inl e \<Rightarrow> Inl e
           | Inr k \<Rightarrow>
               (let toJs = BSON_TO_JS_STRING_get k in
                if \<not> slot_truthy toJs then stringify v else call_slot E toJs v)))"

text \<open>
  \<^verbatim>\<open>export const toJSString = function toJSString(obj, ind = 2) {
    return toJavascriptString(obj, function (value, indent, stringify) {...}, ind); }\<close>
\<close>

definition toJSString :: "collaborators \<Rightarrow> jsval \<Rightarrow> indent \<Rightarrow> jsval result" where
  "toJSString E obj ind = toJavascriptString E obj (toJSString_replacer E) ind"



section \<open>The deprecated compact stringify\<close>

text \<open>
  \<^verbatim>\<open>export const stringify = function stringify(obj) {
    return this.toJSString(obj, 1)
      ?.replace(/ ?\n ? ?/g, '')
      .replace(/ {2,}/g, ' ');
  };\<close>
  Each regular expression is modelled by the function that tries it at the head of a string
  and answers the rest of the string behind the match. A global replace scans from the
  left: where the expression matches, the match is replaced and the scan goes on behind it;
  where it does not, the character is kept.
\<close>

abbreviation SP :: char where "SP \<equiv> CHR 0x20"
abbreviation NL :: char where "NL \<equiv> CHR 0x0A"
abbreviation SQ :: char where "SQ \<equiv> CHR 0x27"
abbreviation DQ :: char where "DQ \<equiv> CHR 0x22"
abbreviation BS :: char where "BS \<equiv> CHR 0x5C"

text \<open>One optional space, taken when it is there (the greedy \<^verbatim>\<open> ?\<close>).\<close>

fun optional_space :: "string \<Rightarrow> string" where
  "optional_space [] = []"
| "optional_space (c # cs) = (if c = SP then cs else c # cs)"

text \<open>
  \<^verbatim>\<open>/ ?\n ? ?/\<close> at the head of a string: a space and a newline, or a newline alone, and then
  up to two spaces.
\<close>

fun match_newline :: "string \<Rightarrow> string option" where
  "match_newline [] = None"
| "match_newline [c] = (if c = NL then Some [] else None)"
| "match_newline (c # d # cs) =
     (if c = SP \<and> d = NL then Some (optional_space (optional_space cs))
      else if c = NL then Some (optional_space (optional_space (d # cs)))
      else None)"

text \<open>\<^verbatim>\<open>/ {2,}/\<close> at the head of a string: two spaces and every space that follows.\<close>

fun match_spaces :: "string \<Rightarrow> string option" where
  "match_spaces (c # d # cs) =
     (if c = SP \<and> d = SP then Some (dropWhile (\<lambda>x. x = SP) cs) else None)"
| "match_spaces cs = None"

lemma optional_space_length: "length (optional_space s) \<le> length s"
  by (cases s) auto

lemma optional_space_twice_length: "length (optional_space (optional_space s)) \<le> length s"
  by (rule order_trans [OF optional_space_length optional_space_length])

lemma match_newline_shorter:
  assumes "match_newline s = Some r"
  shows "length r < length s"
proof (cases s rule: match_newline.cases)
  case 1
  with assms show ?thesis by simp
next
  case (2 c)
  with assms show ?thesis by (simp split: if_splits)
next
  case (3 c d cs)
  have "length (optional_space (optional_space cs)) \<le> length cs"
    by (rule optional_space_twice_length)
  moreover have "length (optional_space (optional_space (d # cs))) \<le> Suc (length cs)"
    using optional_space_twice_length [of "d # cs"] by simp
  ultimately show ?thesis
    using assms 3 by (auto split: if_splits)
qed

lemma match_spaces_shorter:
  assumes "match_spaces s = Some r"
  shows "length r < length s"
proof (cases s rule: match_spaces.cases)
  case (1 c d cs)
  have "length (dropWhile (\<lambda>x. x = SP) cs) \<le> length cs"
    by (rule length_dropWhile_le)
  with assms 1 show ?thesis by (auto split: if_splits)
qed (use assms in auto)

text \<open>\<^verbatim>\<open>.replace(/ ?\n ? ?/g, '')\<close>\<close>

function replace_newlines :: "string \<Rightarrow> string" where
  "replace_newlines [] = []"
| "replace_newlines (c # cs) =
     (case match_newline (c # cs) of
        Some r \<Rightarrow> replace_newlines r
      | None \<Rightarrow> c # replace_newlines cs)"
  by pat_completeness auto
termination
  by (relation "measure length") (auto dest: match_newline_shorter)

text \<open>\<^verbatim>\<open>.replace(/ {2,}/g, ' ')\<close>\<close>

function replace_spaces :: "string \<Rightarrow> string" where
  "replace_spaces [] = []"
| "replace_spaces (c # cs) =
     (case match_spaces (c # cs) of
        Some r \<Rightarrow> SP # replace_spaces r
      | None \<Rightarrow> c # replace_spaces cs)"
  by pat_completeness auto
termination
  by (relation "measure length") (auto dest: match_spaces_shorter)

text \<open>
  The two patterns as values, for a call that does not reach a string.
\<close>

definition newline_pattern :: regexp where
  "newline_pattern =
     \<lparr>source = [SP, CHR ''?'', BS, CHR ''n'', SP, CHR ''?'', SP, CHR ''?''], global = True,
      ignoreCase = False, multiline = False, dotAll = False, unicode = False, sticky = False\<rparr>"

definition spaces_pattern :: regexp where
  "spaces_pattern =
     \<lparr>source = '' {2,}'', global = True, ignoreCase = False, multiline = False,
      dotAll = False, unicode = False, sticky = False\<rparr>"

text \<open>
  The member \<open>replace\<close> of a value that is not a string: an object answers its own property
  of that name; no prototype of the other values has one.
\<close>

definition replace_member :: "jsval \<Rightarrow> jsval" where
  "replace_member x =
     (case x of
        JObject ps \<Rightarrow> own_property ps ''replace''
      | JBson tag ps \<Rightarrow> own_property ps ''replace''
      | JOther cls ps \<Rightarrow> own_property ps ''replace''
      | _ \<Rightarrow> JUndefined)"

text \<open>
  The call \<^verbatim>\<open>x.replace(pattern, replacement)\<close>. On a string, and on the wrapper of a string,
  it is \<^verbatim>\<open>String.prototype.replace\<close>, given here as the function \<open>on_string\<close> that the pattern
  and the replacement make. On \<^verbatim>\<open>undefined\<close> and \<^verbatim>\<open>null\<close> the read of the member throws. On
  any other value the member is called if it is a function, and the call of anything else
  throws a TypeError.
\<close>

definition call_replace ::
  "collaborators \<Rightarrow> (string \<Rightarrow> string) \<Rightarrow> jsval list \<Rightarrow> jsval \<Rightarrow> jsval result" where
  "call_replace E on_string args x =
     (case x of
        JUndefined \<Rightarrow> Inl TypeError
      | JNull \<Rightarrow> Inl TypeError
      | JStr s \<Rightarrow> Inr (JStr (on_string s))
      | JWrapped (JStr s) \<Rightarrow> Inr (JStr (on_string s))
      | _ \<Rightarrow>
          (case replace_member x of
             JFunction f \<Rightarrow> call_function E f x args
           | _ \<Rightarrow> Inl TypeError))"

text \<open>
  \<open>this_toJSString\<close> is the \<open>toJSString\<close> member of the receiver; \<open>None\<close> stands for a
  receiver that has none (the function called detached from the module, where \<^verbatim>\<open>this\<close> is
  undefined). The optional chain answers \<^verbatim>\<open>undefined\<close> when the rendering is \<^verbatim>\<open>undefined\<close>
  or \<^verbatim>\<open>null\<close>, and skips both calls; otherwise the second call is made on the result of the
  first.
\<close>

definition stringify ::
  "collaborators \<Rightarrow> (jsval \<Rightarrow> indent \<Rightarrow> jsval result) option \<Rightarrow> jsval \<Rightarrow> jsval result" where
  "stringify E this_toJSString obj =
     (case this_toJSString of
        None \<Rightarrow> Inl TypeError
      | Some f \<Rightarrow>
          (case f obj (Spaces 1) of
             Inl e \<Rightarrow> Inl e
           | Inr r \<Rightarrow>
               if r = JUndefined \<or> r = JNull then Inr JUndefined
               else
                 (case call_replace E replace_newlines [JRegExp newline_pattern, JStr []] r of
                    Inl e \<Rightarrow> Inl e
                  | Inr x \<Rightarrow> call_replace E replace_spaces [JRegExp spaces_pattern, JStr '' ''] x)))"

text \<open>
  The compact mode as the specification words it: every run of spaces and newlines of the
  rendering becomes a single space.
\<close>

definition is_blank :: "char \<Rightarrow> bool" where
  "is_blank c = (c = SP \<or> c = NL)"

function collapse_whitespace_spec :: "string \<Rightarrow> string" where
  "collapse_whitespace_spec [] = []"
| "collapse_whitespace_spec (c # cs) =
     (if is_blank c then SP # collapse_whitespace_spec (dropWhile is_blank cs)
      else c # collapse_whitespace_spec cs)"
  by pat_completeness auto
termination
  by (relation "measure length") (auto simp: less_Suc_eq_le length_dropWhile_le)

section \<open>Parsing\<close>

text \<open>
  The parse functions have two effects besides their result: they call the external
  parser, and \<^verbatim>\<open>toSafeBSON\<close> writes to the console. Both are recorded, in order, in a trace
  that is returned with the result.
\<close>

datatype event = ParserCalled string | ConsoleError js_error

type_synonym 'a traced = "'a result \<times> event list"

text \<open>\<^verbatim>\<open>export const toBSON = parser;\<close>\<close>

definition toBSON :: "collaborators \<Rightarrow> string \<Rightarrow> jsval traced" where
  "toBSON E s = (parser E s, [ParserCalled s])"

text \<open>
  \<^verbatim>\<open>export const toSafeBSON = function (string) {
    try { return toBSON(string); }
    catch (error) { console.error(error); return null; }
  };\<close>
\<close>

definition try_catch :: "'a traced \<Rightarrow> (js_error \<Rightarrow> 'a traced) \<Rightarrow> 'a traced" where
  "try_catch body handler =
     (case body of
        (Inr v, tr) \<Rightarrow> (Inr v, tr)
      | (Inl e, tr) \<Rightarrow> (case handler e of (r, tr') \<Rightarrow> (r, tr @ tr')))"

definition console_error :: "js_error \<Rightarrow> event list" where
  "console_error e = [ConsoleError e]"

definition toSafeBSON :: "collaborators \<Rightarrow> string \<Rightarrow> jsval traced" where
  "toSafeBSON E s = try_catch (toBSON E s) (\<lambda>error. (Inr JNull, console_error error))"

text \<open>
  \<^verbatim>\<open>/^[\da-f]{24}$/i.test(string)\<close>: the class \<^verbatim>\<open>[\da-f]\<close> read without regard to case,
  exactly 24 times from the start of the string, and then the end of the string (without the
  \<open>m\<close> flag, \<^verbatim>\<open>$\<close> is the end of the input and nothing else).
\<close>

definition hex_class :: "char \<Rightarrow> bool" where
  "hex_class c = (c \<in> set ''0123456789'' \<or> c \<in> set ''abcdef'' \<or> c \<in> set ''ABCDEF'')"

fun match_times :: "(char \<Rightarrow> bool) \<Rightarrow> nat \<Rightarrow> string \<Rightarrow> string option" where
  "match_times p 0 s = Some s"
| "match_times p (Suc n) [] = None"
| "match_times p (Suc n) (c # s) = (if p c then match_times p n s else None)"

definition objectid_pattern_test :: "string \<Rightarrow> bool" where
  "objectid_pattern_test s = (match_times hex_class 24 s = Some [])"

text \<open>
  \<^verbatim>\<open>export const parseObjectId = function (string) {
    if (/^[\da-f]{24}$/i.test(string)) { return new ObjectId(string); }
    return toBSON(string);
  };\<close>
\<close>

definition parseObjectId :: "collaborators \<Rightarrow> string \<Rightarrow> jsval traced" where
  "parseObjectId E s =
     (if objectid_pattern_test s then (new_ObjectId E s, []) else toBSON E s)"

section \<open>Two entries of the formatter table\<close>

text \<open>
  The entries for \<open>Binary\<close> and \<open>RegExp\<close>, at the types their arguments have: a Binary of
  the BSON library (a numeric \<open>sub_type\<close> and a byte buffer) and a regular expression.
\<close>

record binary =
  sub_type :: nat
  buffer :: "8 word list"

text \<open>
  The methods of the library's Binary that the entry calls: \<^verbatim>\<open>v.toUUID().toString()\<close>,
  which may throw, and \<^verbatim>\<open>v.toString(encoding)\<close>, which encodes the buffer and does not.
\<close>

record binary_methods =
  toUUID_toString :: "binary \<Rightarrow> string result"
  toString_encoding :: "binary \<Rightarrow> string \<Rightarrow> string"

text \<open>\<^verbatim>\<open>Number.prototype.toString(16)\<close> on a natural number.\<close>

definition hex_digit :: "nat \<Rightarrow> char" where
  "hex_digit d = ''0123456789abcdef'' ! d"

fun Number_toString_16 :: "nat \<Rightarrow> string" where
  "Number_toString_16 n =
     (if n < 16 then [hex_digit n] else Number_toString_16 (n div 16) @ [hex_digit (n mod 16)])"

declare Number_toString_16.simps [simp del]

text \<open>
  \<^verbatim>\<open>Binary: function (v) {
    const subType = v.sub_type;
    if (subType === 4 && v.buffer.length === 16) {
      let uuidHex = '';
      try { uuidHex = v.toUUID().toString(); }
      catch (ex) { uuidHex = v.toString('hex'); }
      return `UUID('${uuidHex}')`;
    }
    return `BinData(${subType.toString(16)}, '${v.toString('base64')}')`;
  }\<close>
\<close>

definition BSON_TO_JS_STRING_Binary :: "binary_methods \<Rightarrow> binary \<Rightarrow> string result" where
  "BSON_TO_JS_STRING_Binary M v =
     (let subType = sub_type v in
      if subType = 4 \<and> length (buffer v) = 16 then
        (case (case toUUID_toString M v of
                 Inr u \<Rightarrow> Inr u
               | Inl ex \<Rightarrow> Inr (toString_encoding M v ''hex'')) of
           Inl e \<Rightarrow> Inl e
         | Inr uuidHex \<Rightarrow> Inr (''UUID('' @ [SQ] @ uuidHex @ [SQ] @ '')''))
      else
        Inr (''BinData('' @ Number_toString_16 subType @ '', '' @ [SQ] @
             toString_encoding M v ''base64'' @ [SQ] @ '')''))"

text \<open>
  What it means for a string to be a number in lowercase hexadecimal without padding:
  its characters are hexadecimal digits in lower case, it has no leading zero unless it is
  the single digit 0, and read in base sixteen it is the number.
\<close>

definition hex_digit_value :: "char \<Rightarrow> nat" where
  "hex_digit_value c =
     (if of_char c < (0x3A::nat) then of_char c - 0x30 else of_char c - 0x61 + 10)"

definition hex_value :: "string \<Rightarrow> nat" where
  "hex_value s = foldl (\<lambda>acc c. 16 * acc + hex_digit_value c) 0 s"

definition lowercase_hex_of :: "nat \<Rightarrow> string \<Rightarrow> bool" where
  "lowercase_hex_of n s =
     (s \<noteq> [] \<and> set s \<subseteq> set ''0123456789abcdef'' \<and> (hd s = CHR ''0'' \<longrightarrow> s = ''0'') \<and>
      hex_value s = n)"

text \<open>
  \<^verbatim>\<open>JSON.stringify\<close> on a string: the string in double quotes, with the double quote, the
  backslash and the control characters escaped. Strings are byte strings here (UTF-8); a
  byte from 0x80 on belongs to a character that JSON leaves as it is.
\<close>

definition json_escape :: "char \<Rightarrow> string" where
  "json_escape c =
     (if c = CHR 0x08 then [BS, CHR ''b'']
      else if c = CHR 0x09 then [BS, CHR ''t'']
      else if c = NL then [BS, CHR ''n'']
      else if c = CHR 0x0C then [BS, CHR ''f'']
      else if c = CHR 0x0D then [BS, CHR ''r'']
      else if c = DQ then [BS, DQ]
      else if c = BS then [BS, BS]
      else if of_char c < (0x20::nat) then
        [BS, CHR ''u'', CHR ''0'', CHR ''0'',
         hex_digit (of_char c div 16), hex_digit (of_char c mod 16)]
      else [c])"

definition JSON_stringify :: "string \<Rightarrow> string" where
  "JSON_stringify s = [DQ] @ concat (map json_escape s) @ [DQ]"

text \<open>
  \<^verbatim>\<open>RegExp: function (v) {
    let o = '';
    let hasOptions = false;
    if (v.global) { hasOptions = true; o += 'g'; }
    if (v.ignoreCase) { hasOptions = true; o += 'i'; }
    if (v.multiline) { hasOptions = true; o += 'm'; }
    return `RegExp(${JSON.stringify(v.source)}${hasOptions ? `, '${o}'` : ''})`;
  }\<close>
  The two variables are threaded through the three statements as a pair (\<open>o'\<close> is the
  source's \<open>o\<close>).
\<close>

definition add_option :: "bool \<Rightarrow> string \<Rightarrow> string \<times> bool \<Rightarrow> string \<times> bool" where
  "add_option flag letter st = (if flag then (fst st @ letter, True) else st)"

definition BSON_TO_JS_STRING_RegExp :: "regexp \<Rightarrow> string" where
  "BSON_TO_JS_STRING_RegExp v =
     (let st0 = ([], False);
          st1 = add_option (global v) ''g'' st0;
          st2 = add_option (ignoreCase v) ''i'' st1;
          st3 = add_option (multiline v) ''m'' st2;
          o' = fst st3;
          hasOptions = snd st3
      in ''RegExp('' @ JSON_stringify (source v) @
         (if hasOptions then '', '' @ [SQ] @ o' @ [SQ] else []) @ '')'')"

section \<open>Sample collaborators\<close>

text \<open>
  Instances of the external collaborators, for evaluating the functions above on concrete
  inputs. The sample parser accepts two texts and throws a syntax error on every other; the
  sample ObjectId constructor keeps the text in lower case. The sample stringifier does at
  the root what javascript-stringify does: it calls the replacer on the value, with a
  generic stringifier as the continuation. The sample generic stringifier knows the
  renderings that javascript-stringify gives two values at an indent of one space, the
  object \<^verbatim>\<open>{a: 1}\<close> and the array \<^verbatim>\<open>[[[1]]]\<close>, and answers \<^verbatim>\<open>undefined\<close> for any other value.
\<close>

definition sample_parser :: "string \<Rightarrow> jsval result" where
  "sample_parser s =
     (if s = ''{ a: 1 }'' then Inr (JObject [(''a'', JNum (Finite 1))])
      else if s = ''null'' then Inr JNull
      else Inl SyntaxError)"

definition lower_case :: "char \<Rightarrow> char" where
  "lower_case c = (case map_of (zip ''ABCDEF'' ''abcdef'') c of None \<Rightarrow> c | Some d \<Rightarrow> d)"

definition sample_new_ObjectId :: "string \<Rightarrow> jsval result" where
  "sample_new_ObjectId s = Inr (JBson ''ObjectId'' [(''hex'', JStr (map lower_case s))])"

definition sample_rendering :: string where
  "sample_rendering = [CHR ''{'', NL, SP, CHR ''a'', CHR '':'', SP, CHR ''1'', NL, CHR ''}'']"

definition sample_deep_rendering :: string where
  "sample_deep_rendering =
     [CHR ''['', NL, SP, CHR ''['', NL, SP, SP, CHR ''['', NL, SP, SP, SP, CHR ''1'',
      NL, SP, SP, CHR '']'', NL, SP, CHR '']'', NL, CHR '']'']"

definition sample_generic :: "jsval \<Rightarrow> jsval result" where
  "sample_generic v =
     (if v = JObject [(''a'', JNum (Finite 1))] then Inr (JStr sample_rendering)
      else if v = JArray [JArray [JArray [JNum (Finite 1)]]] then Inr (JStr sample_deep_rendering)
      else Inr JUndefined)"

definition sample :: collaborators where
  "sample =
     \<lparr> parser = sample_parser,
       new_ObjectId = sample_new_ObjectId,
       EJSON_serialize = (\<lambda>v. Inr v),
       EJSON_stringify = (\<lambda>v. Inr (JStr ''{}'')),
       toJavascriptString = (\<lambda>obj r ind. r obj ind sample_generic),
       entry_body = (\<lambda>k v. Inr (JStr (k @ ''(...)''))),
       property_key_of = (\<lambda>v. Inr (StringKey ''[object Object]'')),
       call_function = (\<lambda>f this args. Inr JUndefined) \<rparr>"

text \<open>
  Sample methods of a Binary: hexadecimal and Base64 of the buffer, and a conversion to the
  canonical form of a UUID that throws unless the version digit is between 1 and 5.
\<close>

definition byte_hex :: "8 word \<Rightarrow> string" where
  "byte_hex b = [hex_digit (unat b div 16), hex_digit (unat b mod 16)]"

definition base64_digit :: "nat \<Rightarrow> char" where
  "base64_digit d =
     ''ABCDEFGHIJKLMNOPQRSTUVWXYZabcdefghijklmnopqrstuvwxyz0123456789+/'' ! d"

fun base64 :: "nat list \<Rightarrow> string" where
  "base64 [] = []"
| "base64 [a] = [base64_digit (a div 4), base64_digit (a mod 4 * 16), CHR ''='', CHR ''='']"
| "base64 [a, b] =
     [base64_digit (a div 4), base64_digit (a mod 4 * 16 + b div 16),
      base64_digit (b mod 16 * 4), CHR ''='']"
| "base64 (a # b # c # rest) =
     [base64_digit (a div 4), base64_digit (a mod 4 * 16 + b div 16),
      base64_digit (b mod 16 * 4 + c div 64), base64_digit (c mod 64)] @ base64 rest"

definition sample_toString :: "binary \<Rightarrow> string \<Rightarrow> string" where
  "sample_toString v enc =
     (if enc = ''hex'' then concat (map byte_hex (buffer v))
      else if enc = ''base64'' then base64 (map unat (buffer v))
      else [])"

definition sample_toUUID_toString :: "binary \<Rightarrow> string result" where
  "sample_toUUID_toString v =
     (let h = sample_toString v ''hex''; version = unat (buffer v ! 6) div 16 in
      if sub_type v = 4 \<and> length (buffer v) = 16 \<and> 1 \<le> version \<and> version \<le> 5 then
        Inr (take 8 h @ ''-'' @ take 4 (drop 8 h) @ ''-'' @ take 4 (drop 12 h) @ ''-'' @
             take 4 (drop 16 h) @ ''-'' @ drop 20 h)
      else Inl BSONError)"

definition sample_binary_methods :: binary_methods where
  "sample_binary_methods =
     \<lparr> toUUID_toString = sample_toUUID_toString, toString_encoding = sample_toString \<rparr>"

section \<open>Properties of the classifier\<close>

lemma detectType_cases:
  "detectType v = (if class_of v \<in> set (map snd TYPE_FOR_TO_STRING) then Some (class_of v) else None)"
  by (auto simp add: detectType_def Object_prototype_toString_def TYPE_FOR_TO_STRING_def
      snoc_eq_iff_butlast)

lemma detectType_Object_iff: "(detectType v = Some ''Object'') = (class_of v = ''Object'')"
  by (simp add: detectType_cases TYPE_FOR_TO_STRING_def)

lemma get_bsontype_Object:
  "class_of v = ''Object'' \<Longrightarrow> \<exists>m. get_bsontype v = Inr m"
  by (cases v) auto

text \<open>
  Claim C3, amended. For every value: when its internal class maps to the coarse tag
  \<open>Object\<close>, reading its marker attribute \<open>_bsontype\<close> succeeds, and the descriptor has the
  marker as its type and \<open>isBSON\<close> true if the marker is truthy (for a string: not empty),
  and the type \<open>Object\<close> and \<open>isBSON\<close> false if the marker is absent or falsy. For every other
  value the type is the coarse tag and \<open>isBSON\<close> is false; a value whose internal class is not
  in the lookup table has the type \<^verbatim>\<open>undefined\<close>. The classifier throws for no value: each
  case answers a descriptor.
\<close>

theorem classifier_descriptor:
  "(detectType v = Some ''Object'' \<longrightarrow>
      (\<exists>m. get_bsontype v = Inr m \<and>
           getTypeDescriptorForValue v =
             Inr (if truthy m then \<lparr>type = m, isBSON = True\<rparr>
                  else \<lparr>type = JStr ''Object'', isBSON = False\<rparr>))) \<and>
   (detectType v \<noteq> Some ''Object'' \<longrightarrow>
      getTypeDescriptorForValue v = Inr \<lparr>type = coarse_tag (detectType v), isBSON = False\<rparr>) \<and>
   (detectType v = None \<longrightarrow>
      getTypeDescriptorForValue v = Inr \<lparr>type = JUndefined, isBSON = False\<rparr>)"
proof (intro conjI impI)
  assume obj: "detectType v = Some ''Object''"
  then have "class_of v = ''Object''" by (simp add: detectType_Object_iff)
  then obtain m where m: "get_bsontype v = Inr m"
    using get_bsontype_Object by blast
  with obj show "\<exists>m. get_bsontype v = Inr m \<and>
           getTypeDescriptorForValue v =
             Inr (if truthy m then \<lparr>type = m, isBSON = True\<rparr>
                  else \<lparr>type = JStr ''Object'', isBSON = False\<rparr>)"
    by (simp add: getTypeDescriptorForValue_def bsontype_of_def coarse_tag_def)
next
  assume "detectType v \<noteq> Some ''Object''"
  then show "getTypeDescriptorForValue v = Inr \<lparr>type = coarse_tag (detectType v), isBSON = False\<rparr>"
    by (simp add: getTypeDescriptorForValue_def bsontype_of_def)
next
  assume "detectType v = None"
  then show "getTypeDescriptorForValue v = Inr \<lparr>type = JUndefined, isBSON = False\<rparr>"
    by (simp add: getTypeDescriptorForValue_def bsontype_of_def coarse_tag_def)
qed

text \<open>
  The three cases at a Long of the BSON library, an array and a Map.
\<close>

theorem classifier_descriptor_witness:
  "detectType (JBson ''Long'' []) = Some ''Object'' \<and>
   getTypeDescriptorForValue (JBson ''Long'' []) = Inr \<lparr>type = JStr ''Long'', isBSON = True\<rparr> \<and>
   detectType (JArray []) \<noteq> Some ''Object'' \<and>
   getTypeDescriptorForValue (JArray []) = Inr \<lparr>type = JStr ''Array'', isBSON = False\<rparr> \<and>
   detectType (JOther ''Map'' []) = None \<and>
   getTypeDescriptorForValue (JOther ''Map'' []) = Inr \<lparr>type = JUndefined, isBSON = False\<rparr>"
  using classifier_descriptor [of "JBson ''Long'' []"] classifier_descriptor [of "JArray []"]
    classifier_descriptor [of "JOther ''Map'' []"]
  by (simp add: detectType_cases TYPE_FOR_TO_STRING_def coarse_tag_def)

text \<open>
  Claim C3 as it is worded fails at an object that carries the marker attribute with the
  empty string: its internal class is \<open>Object\<close> and the marker is a string, yet the type is
  \<open>Object\<close> and \<open>isBSON\<close> is false.
\<close>

theorem empty_marker_counterexample:
  "detectType (JObject [(''_bsontype'', JStr '''')]) = Some ''Object'' \<and>
   get_bsontype (JObject [(''_bsontype'', JStr '''')]) = Inr (JStr '''') \<and>
   getTypeDescriptorForValue (JObject [(''_bsontype'', JStr '''')]) =
     Inr \<lparr>type = JStr ''Object'', isBSON = False\<rparr> \<and>
   getTypeDescriptorForValue (JObject [(''_bsontype'', JStr '''')]) \<noteq>
     Inr \<lparr>type = JStr '''', isBSON = True\<rparr>"
  by (simp add: detectType_cases TYPE_FOR_TO_STRING_def getTypeDescriptorForValue_def
      bsontype_of_def coarse_tag_def own_property_def)

section \<open>Properties of the stringifier\<close>

lemma string_key_slot:
  "BSON_TO_JS_STRING_get (StringKey s) =
     (if s \<in> set BSON_TO_JS_STRING_keys then Entry s
      else if s \<in> set Object_prototype_keys then Inherited s else Missing)"
  by (simp add: BSON_TO_JS_STRING_get_def)

lemma replacer_string_type:
  "getTypeDescriptorForValue v = Inr t \<Longrightarrow> type t = JStr s \<Longrightarrow>
   toJSString_replacer E v ind nxt =
     (if s \<in> set BSON_TO_JS_STRING_keys then entry_body E s v
      else if s \<in> set Object_prototype_keys then call_inherited s v
      else nxt v)"
  by (simp add: toJSString_replacer_def ToPropertyKey_def string_key_slot call_slot_def Let_def)

text \<open>
  Claim C10. An object whose internal class is \<open>Object\<close> and whose marker \<open>_bsontype\<close> is
  absent or falsy is classified as type \<open>Object\<close>, not BSON, and the callback of the
  stringifier hands it to the generic stringifier. Conversely, whenever the classifier
  answers \<open>isBSON\<close> true, the value has class \<open>Object\<close> and a truthy marker, which is the type.
\<close>

theorem falsy_marker_generic:
  "(detectType v = Some ''Object'' \<and> get_bsontype v = Inr m \<and> \<not> truthy m \<longrightarrow>
      getTypeDescriptorForValue v = Inr \<lparr>type = JStr ''Object'', isBSON = False\<rparr> \<and>
      toJSString_replacer E v ind nxt = nxt v) \<and>
   (getTypeDescriptorForValue v = Inr d \<and> isBSON d \<longrightarrow>
      detectType v = Some ''Object'' \<and>
      (\<exists>m'. get_bsontype v = Inr m' \<and> truthy m' \<and> type d = m'))"
proof (intro conjI impI)
  assume a: "detectType v = Some ''Object'' \<and> get_bsontype v = Inr m \<and> \<not> truthy m"
  then show d: "getTypeDescriptorForValue v = Inr \<lparr>type = JStr ''Object'', isBSON = False\<rparr>"
    by (simp add: getTypeDescriptorForValue_def bsontype_of_def coarse_tag_def)
  show "toJSString_replacer E v ind nxt = nxt v"
    using replacer_string_type [OF d, of "''Object''" E ind nxt]
    by (simp add: BSON_TO_JS_STRING_keys_def Object_prototype_keys_def)
next
  assume a: "getTypeDescriptorForValue v = Inr d \<and> isBSON d"
  show "detectType v = Some ''Object''"
  proof (rule ccontr)
    assume "detectType v \<noteq> Some ''Object''"
    with a show False by (auto simp: getTypeDescriptorForValue_def bsontype_of_def)
  qed
  then show "\<exists>m'. get_bsontype v = Inr m' \<and> truthy m' \<and> type d = m'"
    using a by (auto simp: getTypeDescriptorForValue_def bsontype_of_def split: sum.splits)
qed

text \<open>
  Both halves on concrete values: an object whose marker is the number 0, and a Long.
\<close>

theorem falsy_marker_generic_witness:
  "detectType (JObject [(''_bsontype'', JNum (Finite 0))]) = Some ''Object'' \<and>
   get_bsontype (JObject [(''_bsontype'', JNum (Finite 0))]) = Inr (JNum (Finite 0)) \<and>
   \<not> truthy (JNum (Finite 0)) \<and>
   getTypeDescriptorForValue (JObject [(''_bsontype'', JNum (Finite 0))]) =
     Inr \<lparr>type = JStr ''Object'', isBSON = False\<rparr> \<and>
   toJSString_replacer sample (JObject [(''_bsontype'', JNum (Finite 0))]) (Spaces 2)
     (\<lambda>x. Inr (JStr ''{}'')) = Inr (JStr ''{}'') \<and>
   getTypeDescriptorForValue (JBson ''Long'' []) = Inr \<lparr>type = JStr ''Long'', isBSON = True\<rparr> \<and>
   isBSON \<lparr>type = JStr ''Long'', isBSON = True\<rparr> \<and>
   detectType (JBson ''Long'' []) = Some ''Object'' \<and>
   get_bsontype (JBson ''Long'' []) = Inr (JStr ''Long'') \<and>
   truthy (JStr ''Long'')"
  using falsy_marker_generic [of "JObject [(''_bsontype'', JNum (Finite 0))]" "JNum (Finite 0)"
      sample "Spaces 2" "\<lambda>x. Inr (JStr ''{}'')" "\<lparr>type = JStr ''Object'', isBSON = False\<rparr>"]
    falsy_marker_generic [of "JBson ''Long'' []" JUndefined sample "Spaces 2" "\<lambda>x. Inr (JStr ''{}'')"
      "\<lparr>type = JStr ''Long'', isBSON = True\<rparr>"]
  by (simp add: detectType_cases TYPE_FOR_TO_STRING_def getTypeDescriptorForValue_def
      bsontype_of_def own_property_def)

text \<open>
  A marker that names neither an entry of the table nor a member of
  \<^verbatim>\<open>Object.prototype\<close> falls through to the generic stringifier.
\<close>

lemma replacer_falls_through:
  assumes "getTypeDescriptorForValue v = Inr t" and "type t = JStr s"
    and "s \<notin> set BSON_TO_JS_STRING_keys" and "s \<notin> set Object_prototype_keys"
  shows "toJSString_replacer E v ind nxt = nxt v"
  using replacer_string_type [OF assms(1,2)] assms(3,4) by simp

text \<open>
  Claim C4 at the object \<^verbatim>\<open>{_bsontype: '__proto__'}\<close>. The classifier marks it as BSON with
  the tag \<open>__proto__\<close>, which is not a key of the formatter table; the lookup answers the
  inherited \<^verbatim>\<open>Object.prototype\<close>, which is truthy and not a function, and the call throws a
  TypeError where the claim has the generic stringifier run.
\<close>

theorem unrecognized_tag_throws:
  "getTypeDescriptorForValue (JObject [(''_bsontype'', JStr ''__proto__'')]) =
     Inr \<lparr>type = JStr ''__proto__'', isBSON = True\<rparr> \<and>
   ''__proto__'' \<notin> set BSON_TO_JS_STRING_keys \<and>
   toJSString_replacer E (JObject [(''_bsontype'', JStr ''__proto__'')]) ind nxt =
     Inl TypeError"
  by (simp add: replacer_string_type [where s = "''__proto__''"] getTypeDescriptorForValue_def
      bsontype_of_def own_property_def detectType_cases TYPE_FOR_TO_STRING_def
      BSON_TO_JS_STRING_keys_def Object_prototype_keys_def call_inherited_def)

section \<open>Properties of the compact stringify\<close>

lemma sample_fields:
  "parser sample = sample_parser"
  "new_ObjectId sample = sample_new_ObjectId"
  "EJSON_serialize sample = (\<lambda>v. Inr v)"
  "EJSON_stringify sample = (\<lambda>v. Inr (JStr ''{}''))"
  "toJavascriptString sample = (\<lambda>obj r ind. r obj ind sample_generic)"
  by (simp_all add: sample_def)

lemma sample_toJSString:
  "toJSString sample obj ind = toJSString_replacer sample obj ind sample_generic"
  by (simp add: toJSString_def sample_fields)

lemma sample_toJSString_object:
  "toJSString sample (JObject [(''a'', JNum (Finite 1))]) ind = Inr (JStr sample_rendering)"
proof -
  have "getTypeDescriptorForValue (JObject [(''a'', JNum (Finite 1))]) =
      Inr \<lparr>type = JStr ''Object'', isBSON = False\<rparr>"
    by (simp add: getTypeDescriptorForValue_def bsontype_of_def own_property_def
        detectType_cases TYPE_FOR_TO_STRING_def coarse_tag_def)
  then show ?thesis
    by (simp add: sample_toJSString replacer_string_type [where s = "''Object''"]
        BSON_TO_JS_STRING_keys_def Object_prototype_keys_def sample_generic_def)
qed

lemma sample_toJSString_array:
  "toJSString sample (JArray [JArray [JArray [JNum (Finite 1)]]]) ind =
     Inr (JStr sample_deep_rendering)"
proof -
  have "getTypeDescriptorForValue (JArray [JArray [JArray [JNum (Finite 1)]]]) =
      Inr \<lparr>type = JStr ''Array'', isBSON = False\<rparr>"
    by (simp add: getTypeDescriptorForValue_def bsontype_of_def
        detectType_cases TYPE_FOR_TO_STRING_def coarse_tag_def)
  then show ?thesis
    by (simp add: sample_toJSString replacer_string_type [where s = "''Array''"]
        BSON_TO_JS_STRING_keys_def Object_prototype_keys_def sample_generic_def)
qed


lemma marker_object_descriptor:
  "getTypeDescriptorForValue (JObject [(''_bsontype'', JStr s)]) =
     (if s = [] then Inr \<lparr>type = JStr ''Object'', isBSON = False\<rparr>
      else Inr \<lparr>type = JStr s, isBSON = True\<rparr>)"
  by (simp add: getTypeDescriptorForValue_def bsontype_of_def own_property_def
      detectType_cases TYPE_FOR_TO_STRING_def coarse_tag_def)


lemma sample_toJSString_constructor:
  "toJSString sample (JObject [(''_bsontype'', JStr ''constructor'')]) ind =
     Inr (JObject [(''_bsontype'', JStr ''constructor'')])"
  by (simp add: sample_toJSString marker_object_descriptor
      replacer_string_type [where s = "''constructor''"]
      BSON_TO_JS_STRING_keys_def Object_prototype_keys_def call_inherited_def)

lemma compact_sample: "replace_spaces (replace_newlines sample_rendering) = ''{a: 1}''"
  by (simp add: sample_rendering_def)

lemma compact_deep_sample:
  "replace_spaces (replace_newlines sample_deep_rendering) = ''[[[ 1]]]''"
  by (simp add: sample_deep_rendering_def)

lemma stringify_string_rendering:
  "f obj (Spaces 1) = Inr (JStr r) \<Longrightarrow>
   stringify E (Some f) obj = Inr (JStr (replace_spaces (replace_newlines r)))"
  by (simp add: stringify_def call_replace_def)

text \<open>
  A rendering that is an object without a member \<open>replace\<close> makes the compact stringify
  throw: the marker \<open>constructor\<close> names \<^verbatim>\<open>Object\<close>, which returns the object itself, and
  \<^verbatim>\<open>.replace\<close> of that object is not a function.
\<close>

lemma stringify_object_rendering_throws:
  "stringify sample (Some (toJSString sample)) (JObject [(''_bsontype'', JStr ''constructor'')]) =
     Inl TypeError"
  by (simp add: stringify_def sample_toJSString_constructor call_replace_def replace_member_def
      own_property_def)

text \<open>
  Claim C8 at the object \<^verbatim>\<open>{a: 1}\<close> and at the array \<^verbatim>\<open>[[[1]]]\<close>. Their renderings at an indent
  of one space are \<^verbatim>\<open>{\n a: 1\n}\<close> and \<^verbatim>\<open>[\n [\n  [\n   1\n  ]\n ]\n]\<close>. With every run of
  spaces and newlines collapsed to a single space, as the claim and the doc comment of the
  function have it, they would read \<^verbatim>\<open>{ a: 1 }\<close> and \<^verbatim>\<open>[ [ [ 1 ] ] ]\<close>. The code deletes each
  line break with up to two spaces of its indentation and answers \<^verbatim>\<open>{a: 1}\<close> and
  \<^verbatim>\<open>[[[ 1]]]\<close>: no space where the indentation was one or two spaces deep, one space where
  it was deeper.
\<close>

theorem stringify_deletes_line_breaks:
  "toJSString sample (JObject [(''a'', JNum (Finite 1))]) (Spaces 1) = Inr (JStr sample_rendering) \<and>
   collapse_whitespace_spec sample_rendering = ''{ a: 1 }'' \<and>
   stringify sample (Some (toJSString sample)) (JObject [(''a'', JNum (Finite 1))]) =
     Inr (JStr ''{a: 1}'') \<and>
   toJSString sample (JArray [JArray [JArray [JNum (Finite 1)]]]) (Spaces 1) =
     Inr (JStr sample_deep_rendering) \<and>
   collapse_whitespace_spec sample_deep_rendering = ''[ [ [ 1 ] ] ]'' \<and>
   stringify sample (Some (toJSString sample)) (JArray [JArray [JArray [JNum (Finite 1)]]]) =
     Inr (JStr ''[[[ 1]]]'')"
  by (simp add: sample_toJSString_object sample_toJSString_array stringify_string_rendering
      compact_sample compact_deep_sample)
    (simp add: sample_rendering_def sample_deep_rendering_def is_blank_def)

section \<open>Properties of the parse functions\<close>

lemma match_times_iff:
  "(match_times p n s = Some r) = (n \<le> length s \<and> (\<forall>c \<in> set (take n s). p c) \<and> r = drop n s)"
proof (induction p n s rule: match_times.induct)
  case (1 p s)
  then show ?case by auto
next
  case (2 p n)
  then show ?case by simp
next
  case (3 p n c s)
  then show ?case by auto
qed

lemma objectid_pattern_test_iff:
  "objectid_pattern_test s = (length s = 24 \<and> (\<forall>c \<in> set s. hex_class c))"
proof -
  have "objectid_pattern_test s = (24 \<le> length s \<and> (\<forall>c \<in> set (take 24 s). hex_class c) \<and> drop 24 s = [])"
    unfolding objectid_pattern_test_def match_times_iff by auto
  also have "\<dots> = (length s = 24 \<and> (\<forall>c \<in> set s. hex_class c))"
    by auto
  finally show ?thesis .
qed


text \<open>
  Claim C2. For every text, the safe parse returns the value of the external parser when the
  parser succeeds, after the one call of the parser; when the parser throws an error, it
  writes that error to the console and returns \<^verbatim>\<open>null\<close>. It throws for no text.
\<close>

theorem toSafeBSON_never_throws:
  "toSafeBSON E s =
     (case parser E s of
        Inr v \<Rightarrow> (Inr v, [ParserCalled s])
      | Inl e \<Rightarrow> (Inr JNull, [ParserCalled s, ConsoleError e])) \<and>
   (\<forall>e. fst (toSafeBSON E s) \<noteq> Inl e)"
  by (simp add: toSafeBSON_def try_catch_def toBSON_def console_error_def split: sum.split)

text \<open>
  With the sample parser: a text it rejects, and a text it accepts.
\<close>

theorem toSafeBSON_never_throws_witness:
  "parser sample ''{ not: valid'' = Inl SyntaxError \<and>
   toSafeBSON sample ''{ not: valid'' =
     (Inr JNull, [ParserCalled ''{ not: valid'', ConsoleError SyntaxError]) \<and>
   parser sample ''{ a: 1 }'' = Inr (JObject [(''a'', JNum (Finite 1))]) \<and>
   toSafeBSON sample ''{ a: 1 }'' =
     (Inr (JObject [(''a'', JNum (Finite 1))]), [ParserCalled ''{ a: 1 }''])"
  using toSafeBSON_never_throws [of sample "''{ not: valid''"]
    toSafeBSON_never_throws [of sample "''{ a: 1 }''"]
  by (simp add: sample_fields sample_parser_def)

text \<open>
  Claim C6. For every text of exactly 24 hexadecimal digits, in either case, the result of
  \<open>parseObjectId\<close> is the ObjectId that the constructor builds from the text, and the parser
  is not called; for every other text it is what the parser returns for that text, after
  the one call of the parser.
\<close>

theorem parseObjectId_cases:
  "(length s = 24 \<and> (\<forall>c \<in> set s. hex_class c) \<longrightarrow>
      parseObjectId E s = (new_ObjectId E s, [])) \<and>
   (\<not> (length s = 24 \<and> (\<forall>c \<in> set s. hex_class c)) \<longrightarrow>
      parseObjectId E s = (parser E s, [ParserCalled s]))"
  by (simp add: parseObjectId_def objectid_pattern_test_iff toBSON_def)

text \<open>
  A text of 24 hexadecimal digits, a text of 24 characters that ends in a \<open>g\<close>, and a short
  text.
\<close>

theorem parseObjectId_cases_witness:
  "length ''507F1f77bcf86cd799439011'' = 24 \<and>
   list_all hex_class ''507F1f77bcf86cd799439011'' \<and>
   parseObjectId sample ''507F1f77bcf86cd799439011'' =
     (Inr (JBson ''ObjectId'' [(''hex'', JStr ''507f1f77bcf86cd799439011'')]), []) \<and>
   length ''507f1f77bcf86cd79943901g'' = 24 \<and>
   \<not> list_all hex_class ''507f1f77bcf86cd79943901g'' \<and>
   parseObjectId sample ''507f1f77bcf86cd79943901g'' =
     (Inl SyntaxError, [ParserCalled ''507f1f77bcf86cd79943901g'']) \<and>
   parseObjectId sample ''null'' = (Inr JNull, [ParserCalled ''null''])"
  using parseObjectId_cases [of "''507F1f77bcf86cd799439011''" sample]
    parseObjectId_cases [of "''507f1f77bcf86cd79943901g''" sample]
    parseObjectId_cases [of "''null''" sample]
  by (simp add: sample_fields sample_parser_def sample_new_ObjectId_def hex_class_def
      lower_case_def)




section \<open>Properties of the two formatters\<close>

lemma hex_digit_values: "map hex_digit_value ''0123456789abcdef'' = [0..<16]"
  by code_simp

lemma hex_digit_facts:
  assumes "d < 16"
  shows "hex_digit d \<in> set ''0123456789abcdef''"
    and "hex_digit_value (hex_digit d) = d"
    and "(hex_digit d = CHR ''0'') = (d = 0)"
proof -
  have len: "length ''0123456789abcdef'' = 16" by simp
  show "hex_digit d \<in> set ''0123456789abcdef''"
    unfolding hex_digit_def by (rule nth_mem) (simp only: len assms)
  have "hex_digit_value (hex_digit d) = map hex_digit_value ''0123456789abcdef'' ! d"
    unfolding hex_digit_def using assms by (subst nth_map) (simp_all only: len)
  also have "\<dots> = d"
    unfolding hex_digit_values using assms by simp
  finally show v: "hex_digit_value (hex_digit d) = d" .
  show "(hex_digit d = CHR ''0'') = (d = 0)"
  proof
    assume "hex_digit d = CHR ''0''"
    then have "hex_digit_value (hex_digit d) = 0" by (simp add: hex_digit_value_def)
    with v show "d = 0" by simp
  next
    assume "d = 0"
    then show "hex_digit d = CHR ''0''" by (simp add: hex_digit_def)
  qed
qed

lemma hex_value_snoc: "hex_value (s @ [c]) = 16 * hex_value s + hex_digit_value c"
  by (simp add: hex_value_def)

lemma Number_toString_16_nonempty: "Number_toString_16 n \<noteq> []"
  by (subst Number_toString_16.simps) simp

lemma Number_toString_16_lowercase_hex: "lowercase_hex_of n (Number_toString_16 n)"
proof (induction n rule: Number_toString_16.induct)
  case (1 n)
  show ?case
  proof (cases "n < 16")
    case True
    then have s: "Number_toString_16 n = [hex_digit n]"
      by (subst Number_toString_16.simps) simp
    have "set [hex_digit n] \<subseteq> set ''0123456789abcdef''"
      using hex_digit_facts(1) [OF True] by (simp only: list.set insert_subset empty_subsetI)
    moreover have "hd [hex_digit n] = CHR ''0'' \<longrightarrow> [hex_digit n] = ''0''"
      by simp
    moreover have "hex_value [hex_digit n] = n"
      using hex_digit_facts(2) [OF True] by (simp add: hex_value_def)
    ultimately show ?thesis
      unfolding lowercase_hex_of_def s by blast
  next
    case False
    define q where "q = n div 16"
    define r where "r = n mod 16"
    have r16: "r < 16" by (simp add: r_def)
    have q0: "q \<noteq> 0" using False by (simp add: q_def)
    have s: "Number_toString_16 n = Number_toString_16 q @ [hex_digit r]"
      using False by (subst Number_toString_16.simps) (simp add: q_def r_def)
    have ih: "lowercase_hex_of q (Number_toString_16 q)"
      using 1 False by (simp add: q_def)
    have ne: "Number_toString_16 q \<noteq> []" by (rule Number_toString_16_nonempty)
    have hdq: "hd (Number_toString_16 q) \<noteq> CHR ''0''"
    proof
      assume "hd (Number_toString_16 q) = CHR ''0''"
      with ih have "Number_toString_16 q = ''0''" by (simp add: lowercase_hex_of_def)
      with ih have "q = 0" by (simp add: lowercase_hex_of_def hex_value_def hex_digit_value_def)
      with q0 show False by simp
    qed
    show ?thesis
      unfolding lowercase_hex_of_def
    proof (intro conjI impI)
      show "Number_toString_16 n \<noteq> []"
        by (rule Number_toString_16_nonempty)
      define D where "D = set ''0123456789abcdef''"
      have "set (Number_toString_16 q) \<subseteq> D"
        using ih unfolding lowercase_hex_of_def D_def by (rule conjunct1 [OF conjunct2])
      moreover have "hex_digit r \<in> D"
        unfolding D_def by (rule hex_digit_facts(1) [OF r16])
      ultimately have "set (Number_toString_16 q @ [hex_digit r]) \<subseteq> D"
        by simp
      then show "set (Number_toString_16 n) \<subseteq> set ''0123456789abcdef''"
        unfolding s D_def .
      have "hex_value (Number_toString_16 q) = q"
        using ih unfolding lowercase_hex_of_def by simp
      then show "hex_value (Number_toString_16 n) = n"
        using hex_digit_facts(2) [OF r16] by (simp add: s hex_value_snoc q_def r_def)
      assume "hd (Number_toString_16 n) = CHR ''0''"
      moreover have "hd (Number_toString_16 n) = hd (Number_toString_16 q)"
        unfolding s using ne by (rule hd_append2)
      ultimately show "Number_toString_16 n = ''0''"
        using hdq by simp
    qed
  qed
qed

text \<open>
  Claim C1. For every Binary: when its subtype is 4 and its buffer has exactly 16 bytes, the
  formatter returns \<^verbatim>\<open>UUID('...')\<close> around the canonical string of the UUID conversion, or,
  when that conversion throws, around the hexadecimal string of the Binary; for every other
  subtype or length it returns \<^verbatim>\<open>BinData(h, '...')\<close> around the Base64 string of the Binary,
  where \<open>h\<close> is the subtype in lowercase hexadecimal without padding. The formatter throws
  for no Binary.
\<close>

theorem Binary_format:
  "BSON_TO_JS_STRING_Binary M v =
     Inr (if sub_type v = 4 \<and> length (buffer v) = 16
          then ''UUID('' @ [SQ] @
               (case toUUID_toString M v of Inr u \<Rightarrow> u | Inl ex \<Rightarrow> toString_encoding M v ''hex'') @
               [SQ] @ '')''
          else ''BinData('' @ Number_toString_16 (sub_type v) @ '', '' @ [SQ] @
               toString_encoding M v ''base64'' @ [SQ] @ '')'') \<and>
   lowercase_hex_of (sub_type v) (Number_toString_16 (sub_type v))"
  by (simp add: BSON_TO_JS_STRING_Binary_def Number_toString_16_lowercase_hex Let_def
      split: sum.split)

text \<open>
  With the sample methods: a UUID, sixteen bytes that the conversion rejects, and four
  bytes of subtype 128.
\<close>

theorem Binary_format_witness:
  "BSON_TO_JS_STRING_Binary sample_binary_methods
     \<lparr>sub_type = 4, buffer = [0x01, 0x02, 0x03, 0x04, 0x05, 0x06, 0x47, 0x08,
                               0x89, 0x0a, 0x0b, 0x0c, 0x0d, 0x0e, 0x0f, 0x10]\<rparr> =
     Inr (''UUID('' @ [SQ] @ ''01020304-0506-4708-890a-0b0c0d0e0f10'' @ [SQ] @ '')'') \<and>
   BSON_TO_JS_STRING_Binary sample_binary_methods
     \<lparr>sub_type = 4, buffer = [0xff, 0xff, 0xff, 0xff, 0xff, 0xff, 0xff, 0xff,
                               0xff, 0xff, 0xff, 0xff, 0xff, 0xff, 0xff, 0xff]\<rparr> =
     Inr (''UUID('' @ [SQ] @ ''ffffffffffffffffffffffffffffffff'' @ [SQ] @ '')'') \<and>
   BSON_TO_JS_STRING_Binary sample_binary_methods \<lparr>sub_type = 128, buffer = [0, 1, 2, 3]\<rparr> =
     Inr (''BinData(80, '' @ [SQ] @ ''AAECAw=='' @ [SQ] @ '')'') \<and>
   lowercase_hex_of 128 ''80''"
  using Binary_format [of sample_binary_methods
      "\<lparr>sub_type = 4, buffer = [0x01, 0x02, 0x03, 0x04, 0x05, 0x06, 0x47, 0x08,
                                0x89, 0x0a, 0x0b, 0x0c, 0x0d, 0x0e, 0x0f, 0x10]\<rparr>"]
    Binary_format [of sample_binary_methods
      "\<lparr>sub_type = 4, buffer = [0xff, 0xff, 0xff, 0xff, 0xff, 0xff, 0xff, 0xff,
                                0xff, 0xff, 0xff, 0xff, 0xff, 0xff, 0xff, 0xff]\<rparr>"]
    Binary_format [of sample_binary_methods "\<lparr>sub_type = 128, buffer = [0, 1, 2, 3]\<rparr>"]
  by (simp add: sample_binary_methods_def sample_toUUID_toString_def sample_toString_def
      byte_hex_def hex_digit_def base64_digit_def Let_def Number_toString_16.simps)

text \<open>
  Claim C5. For every regular expression, the formatter returns \<^verbatim>\<open>RegExp(...)\<close> around the
  JSON-quoted source alone when none of the flags global, ignoreCase and multiline is set,
  and otherwise around the source, a comma and the quoted flags: \<open>g\<close> if and only if global
  is set, then \<open>i\<close> if and only if ignoreCase is set, then \<open>m\<close> if and only if multiline is
  set.
\<close>

theorem RegExp_format:
  "BSON_TO_JS_STRING_RegExp v =
     ''RegExp('' @ JSON_stringify (source v) @
     (if \<not> global v \<and> \<not> ignoreCase v \<and> \<not> multiline v then []
      else '', '' @ [SQ] @ (if global v then ''g'' else []) @ (if ignoreCase v then ''i'' else []) @
           (if multiline v then ''m'' else []) @ [SQ]) @
     '')''"
  by (simp add: BSON_TO_JS_STRING_RegExp_def add_option_def Let_def)

text \<open>
  A pattern without flags, and a pattern that holds a double quote with the flags multiline
  and global.
\<close>

theorem RegExp_format_witness:
  "BSON_TO_JS_STRING_RegExp
     \<lparr>source = ''^a+$'', global = False, ignoreCase = False, multiline = False,
      dotAll = True, unicode = False, sticky = True\<rparr> =
     ''RegExp('' @ [DQ] @ ''^a+$'' @ [DQ] @ '')'' \<and>
   BSON_TO_JS_STRING_RegExp
     \<lparr>source = [CHR ''a'', DQ, CHR ''b''], global = True, ignoreCase = False, multiline = True,
      dotAll = False, unicode = False, sticky = False\<rparr> =
     ''RegExp('' @ [DQ, CHR ''a'', BS, DQ, CHR ''b'', DQ] @ '', '' @ [SQ] @ ''gm'' @ [SQ] @ '')''"
  using RegExp_format [of "\<lparr>source = ''^a+$'', global = False, ignoreCase = False,
      multiline = False, dotAll = True, unicode = False, sticky = True\<rparr>"]
    RegExp_format [of "\<lparr>source = [CHR ''a'', DQ, CHR ''b''], global = True, ignoreCase = False,
      multiline = True, dotAll = False, unicode = False, sticky = False\<rparr>"]
  by (simp add: JSON_stringify_def json_escape_def)

end
